theory Spec2Isabelle
  imports Complex_Main "HOL-Library.Word"
begin

section \<open>Gaussian Process estimators of \<^verbatim>\<open>skorch/probabilistic.py\<close>\<close>

text \<open>
  The module overrides a handful of extension points of the training framework's
  \<^verbatim>\<open>NeuralNet\<close>. The overrides are embedded below, one definition per method. The
  methods of the base class and of the numerical libraries that an override calls are
  arguments of its definition (named after the method they stand for), so every theorem
  holds for whatever those collaborators compute.

  A method call is a function from the estimator's state to a result and the state after
  the call. A raised exception is the result \<open>Inl e\<close>.
\<close>

subsection \<open>Exceptions\<close>

datatype error =
    NotInitializedError string
  | AttributeError string
  | NotImplementedError string
  | ValueError string
  | TypeError string
  | KeyError string
  | IndexError string

subsection \<open>Tensors and arrays\<close>

text \<open>
  A torch tensor or numpy array is its shape and its elements in row-major order. A
  zero-dimensional (scalar) tensor has the empty shape and one element. Floating point
  elements are idealised as reals, and the conversion \<^verbatim>\<open>to_numpy\<close> between the two
  libraries keeps the type.
\<close>

datatype 'a ndarray = NDArray (shape: "nat list") (elems: "'a list")

type_synonym tensor = "real ndarray"

text \<open>\<^verbatim>\<open>Tensor.dim()\<close>: the number of dimensions.\<close>

definition tensor_dim :: "'a ndarray \<Rightarrow> nat" where
  "tensor_dim t = length (shape t)"

text \<open>
  \<^verbatim>\<open>Tensor.mean()\<close> without arguments reduces over all elements to a scalar tensor. (Of
  a tensor without elements the library's mean is NaN, which the reals do not have; no
  property below depends on the value of the mean.)
\<close>

definition tensor_mean :: "tensor \<Rightarrow> tensor" where
  "tensor_mean t = NDArray [] [sum_list (elems t) / real (length (elems t))]"

text \<open>Unary minus keeps the shape and negates every element.\<close>

definition tensor_neg :: "tensor \<Rightarrow> tensor" where
  "tensor_neg t = NDArray (shape t) (map uminus (elems t))"

subsection \<open>Values produced by a module\<close>

text \<open>
  The forward pass of a GP module yields a distribution, of which the code reads
  \<^verbatim>\<open>mean\<close> and \<^verbatim>\<open>stddev\<close>. A module may also return a tuple of several outputs.
\<close>

datatype distribution = Distribution (mean: tensor) (stddev: tensor)

datatype 'e pyval = Dist distribution | Obj 'e

datatype 'e module_output = Single "'e pyval" | Tuple "'e pyval list"

subsection \<open>The estimator\<close>

datatype gp_class = GPBase | ExactGPRegressor | GPRegressor | GPBinaryClassifier

text \<open>\<^verbatim>\<open>self.__class__.__name__\<close>\<close>

fun class_name :: "gp_class \<Rightarrow> string" where
  "class_name GPBase = ''GPBase''"
| "class_name ExactGPRegressor = ''ExactGPRegressor''"
| "class_name GPRegressor = ''GPRegressor''"
| "class_name GPBinaryClassifier = ''GPBinaryClassifier''"

text \<open>
  A torch module carries its train/eval flag; \<^verbatim>\<open>module.train(mode)\<close> sets it.
\<close>

record 'w torch_module =
  training :: bool
  weights :: 'w

definition train :: "bool \<Rightarrow> 'w torch_module \<Rightarrow> 'w torch_module" where
  "train mode m = m\<lparr>training := mode\<rparr>"

text \<open>
  Keyword arguments handed to the criterion's constructor.
\<close>

datatype ('e, 'w) kwarg =
    LikelihoodArg "'e pyval \<Rightarrow> error + 'e pyval"
  | ModelArg "'w torch_module"
  | ParamArg 'e

text \<open>
  The attributes of \<^verbatim>\<open>self\<close> that the overrides read or write. An attribute that has
  not been set yet is \<open>None\<close>. The attributes \<^verbatim>\<open>likelihood_\<close>, \<^verbatim>\<open>module_\<close> and
  \<^verbatim>\<open>criterion_\<close> are the fields \<open>likelihood_inst\<close>, \<open>module_inst\<close> and \<open>criterion_inst\<close>.
  The instantiated likelihood is the function it computes when called. \<open>threshold\<close> is
  set by \<^verbatim>\<open>GPBinaryClassifier\<close> only. \<open>grad_enabled\<close> and \<open>fast_pred_var\<close> are the
  process-wide switches of the tensor and GP libraries that \<^verbatim>\<open>evaluation_step\<close> sets for
  the duration of a block; \<open>base\<close> is whatever else the framework keeps on the estimator.
\<close>

record ('e, 'w, 'c, 'f) net =
  cls :: gp_class
  criterion :: "(string \<rightharpoonup> ('e, 'w) kwarg) \<Rightarrow> error + 'c"
  likelihood_inst :: "('e pyval \<Rightarrow> error + 'e pyval) option"
  module_inst :: "'w torch_module option"
  criterion_inst :: "'c option"
  threshold :: real
  grad_enabled :: bool
  fast_pred_var :: bool
  base :: 'f

subsection \<open>\<^verbatim>\<open>GPBase.get_loss\<close>\<close>

text \<open>
  \<^verbatim>\<open>
  loss = super().get_loss(y_pred, y_true, X=X, training=training)
  if loss.dim() != 0:
      loss = loss.mean()
  return -loss
  \<close>
  \<open>super_get_loss\<close> is \<^verbatim>\<open>NeuralNet.get_loss\<close>.
\<close>

definition get_loss ::
  "('p \<Rightarrow> 't \<Rightarrow> 'x option \<Rightarrow> bool \<Rightarrow> 's \<Rightarrow> (error + tensor) \<times> 's) \<Rightarrow>
   'p \<Rightarrow> 't \<Rightarrow> 'x option \<Rightarrow> bool \<Rightarrow> 's \<Rightarrow> (error + tensor) \<times> 's" where
  "get_loss super_get_loss y_pred y_true X is_training s =
     (case super_get_loss y_pred y_true X is_training s of
        (Inl e, s') \<Rightarrow> (Inl e, s')
      | (Inr loss, s') \<Rightarrow>
          (let loss = (if tensor_dim loss \<noteq> 0 then tensor_mean loss else loss)
           in (Inr (tensor_neg loss), s')))"

subsection \<open>Generators\<close>

text \<open>
  \<^verbatim>\<open>NeuralNet.forward_iter\<close> is a generator: nothing runs when it is called, and each
  request for the next element runs the data loader and \<^verbatim>\<open>evaluation_step\<close> for one
  more batch. A generator over finitely many batches is the list of those steps, each a
  function of the state at the moment it is run. A step that raises ends the iteration.
\<close>

type_synonym ('y, 's) generator = "('s \<Rightarrow> (error + 'y) \<times> 's) list"

text \<open>\<^verbatim>\<open>list(generator)\<close>\<close>

fun list_of :: "('y, 's) generator \<Rightarrow> 's \<Rightarrow> (error + 'y list) \<times> 's" where
  "list_of [] s = (Inr [], s)"
| "list_of (g # gs) s =
     (case g s of
        (Inl e, s') \<Rightarrow> (Inl e, s')
      | (Inr y, s') \<Rightarrow>
          (case list_of gs s' of
             (Inl e, s'') \<Rightarrow> (Inl e, s'')
           | (Inr ys, s'') \<Rightarrow> (Inr (y # ys), s'')))"

subsection \<open>\<^verbatim>\<open>GPBase.forward\<close>\<close>

text \<open>
  \<^verbatim>\<open>
  y_infer = list(self.forward_iter(X, training=training, device=device))
  return y_infer
  \<close>
  \<open>forward_iter\<close> is \<^verbatim>\<open>NeuralNet.forward_iter\<close>; its device argument is \<open>None\<close> where
  a caller leaves it to the default.
\<close>

definition forward ::
  "('x \<Rightarrow> bool \<Rightarrow> string option \<Rightarrow> 's \<Rightarrow> ('e module_output, 's) generator) \<Rightarrow>
   'x \<Rightarrow> bool \<Rightarrow> string \<Rightarrow> 's \<Rightarrow> (error + 'e module_output list) \<times> 's" where
  "forward forward_iter X is_training device s =
     (case list_of (forward_iter X is_training (Some device) s) s of
        (Inl e, s') \<Rightarrow> (Inl e, s')
      | (Inr y_infer, s') \<Rightarrow> (Inr y_infer, s'))"

subsection \<open>\<^verbatim>\<open>GPBase.predict_proba\<close>\<close>

text \<open>
  \<^verbatim>\<open>
  raise AttributeError("'predict_proba' is not implemented for {}".format(
      self.__class__.__name__))
  \<close>
\<close>

definition GPBase_predict_proba ::
  "'x \<Rightarrow> ('e, 'w, 'c, 'f) net \<Rightarrow> (error + real ndarray) \<times> ('e, 'w, 'c, 'f) net" where
  "GPBase_predict_proba X s =
     (Inl (AttributeError
        ([CHR 0x27] @ ''predict_proba'' @ [CHR 0x27] @ '' is not implemented for '' @
         class_name (cls s))), s)"

subsection \<open>Reading the posterior of a batch\<close>

text \<open>\<^verbatim>\<open>posterior = yi[0] if isinstance(yi, tuple) else yi\<close>\<close>

fun posterior_of :: "'e module_output \<Rightarrow> error + 'e pyval" where
  "posterior_of (Tuple []) = Inl (IndexError ''tuple index out of range'')"
| "posterior_of (Tuple (y # ys)) = Inr y"
| "posterior_of (Single y) = Inr y"

text \<open>\<^verbatim>\<open>posterior.mean\<close> and \<^verbatim>\<open>posterior.stddev\<close>\<close>

fun get_mean :: "'e pyval \<Rightarrow> error + tensor" where
  "get_mean (Dist d) = Inr (mean d)"
| "get_mean (Obj x) = Inl (AttributeError ''mean'')"

fun get_stddev :: "'e pyval \<Rightarrow> error + tensor" where
  "get_stddev (Dist d) = Inr (stddev d)"
| "get_stddev (Obj x) = Inl (AttributeError ''stddev'')"

subsection \<open>numpy\<close>

text \<open>
  \<^verbatim>\<open>np.concatenate(arrays, 0)\<close> joins along the first axis. It raises on an empty list, on
  a zero-dimensional array, and when the arrays differ in rank or in a trailing dimension.
  Where the message of numpy names the arrays at fault, the model keeps its fixed part.
\<close>

definition np_concatenate :: "'a ndarray list \<Rightarrow> error + 'a ndarray" where
  "np_concatenate arrs =
     (case arrs of
        [] \<Rightarrow> Inl (ValueError ''need at least one array to concatenate'')
      | a # rest \<Rightarrow>
          if list_ex (\<lambda>b. shape b = []) arrs
          then Inl (ValueError ''zero-dimensional arrays cannot be concatenated'')
          else if list_ex (\<lambda>b. length (shape b) \<noteq> length (shape a)) rest
          then Inl (ValueError ''all the input arrays must have same number of dimensions'')
          else if list_ex (\<lambda>b. tl (shape b) \<noteq> tl (shape a)) rest
          then Inl (ValueError ''all the input array dimensions except for the concatenation axis must match exactly'')
          else Inr (NDArray (sum_list (map (\<lambda>b. hd (shape b)) arrs) # tl (shape a))
                            (concat (map elems arrs))))"

text \<open>\<^verbatim>\<open>a.reshape(-1, 1)\<close>: one column, as many rows as there are elements.\<close>

definition reshape_column :: "'a ndarray \<Rightarrow> 'a ndarray" where
  "reshape_column a = NDArray [length (elems a), 1] (elems a)"

text \<open>\<^verbatim>\<open>c - a\<close> for a number \<open>c\<close>, element by element.\<close>

definition rsub :: "real \<Rightarrow> real ndarray \<Rightarrow> real ndarray" where
  "rsub c a = NDArray (shape a) (map (\<lambda>x. c - x) (elems a))"

text \<open>The \<open>n\<close> consecutive blocks of \<open>k\<close> elements of a row-major element list.\<close>

definition chunks :: "nat \<Rightarrow> nat \<Rightarrow> 'a list \<Rightarrow> 'a list list" where
  "chunks n k xs = map (\<lambda>i. take k (drop (i * k) xs)) [0..<n]"

definition atleast_1d :: "'a ndarray \<Rightarrow> 'a ndarray" where
  "atleast_1d a = (if shape a = [] then NDArray [1] (elems a) else a)"

text \<open>
  \<^verbatim>\<open>np.hstack((a, b))\<close>: arrays of rank one are joined along the first axis, all others
  along the second.
\<close>

definition np_hstack :: "'a ndarray \<Rightarrow> 'a ndarray \<Rightarrow> error + 'a ndarray" where
  "np_hstack a0 b0 =
     (let a = atleast_1d a0; b = atleast_1d b0
      in if length (shape a) = 1 then np_concatenate [a, b]
         else (case (shape a, shape b) of
                 (d0 # d1 # ra, e0 # e1 # rb) \<Rightarrow>
                   if d0 = e0 \<and> ra = rb
                   then Inr (NDArray (d0 # (d1 + e1) # ra)
                          (concat (map2 (@) (chunks d0 (d1 * prod_list ra) (elems a))
                                            (chunks e0 (e1 * prod_list rb) (elems b)))))
                   else Inl (ValueError ''all the input array dimensions except for the concatenation axis must match exactly'')
               | _ \<Rightarrow> Inl (ValueError ''all the input arrays must have same number of dimensions'')))"




subsection \<open>\<^verbatim>\<open>_GPRegressorPredictMixin.predict\<close>\<close>

text \<open>
  The mixin is the first base of \<^verbatim>\<open>ExactGPRegressor\<close> and of \<^verbatim>\<open>GPRegressor\<close>, so this
  is the \<^verbatim>\<open>predict\<close> of both.
  \<^verbatim>\<open>
  for yi in self.forward_iter(X, training=False):
      posterior = yi[0] if isinstance(yi, tuple) else yi
      y_preds.append(to_numpy(nonlin(posterior.mean)))
      if not return_std:
          continue
      y_stds.append(to_numpy(nonlin(posterior.stddev)))
  \<close>
\<close>

fun predict_loop ::
  "(tensor \<Rightarrow> tensor) \<Rightarrow> (tensor \<Rightarrow> real ndarray) \<Rightarrow> bool \<Rightarrow>
   ('e module_output, 's) generator \<Rightarrow> real ndarray list \<Rightarrow> real ndarray list \<Rightarrow> 's \<Rightarrow>
   (error + real ndarray list \<times> real ndarray list) \<times> 's" where
  "predict_loop nonlin to_numpy return_std [] y_preds y_stds s = (Inr (y_preds, y_stds), s)"
| "predict_loop nonlin to_numpy return_std (g # gs) y_preds y_stds s =
     (case g s of
        (Inl e, s') \<Rightarrow> (Inl e, s')
      | (Inr yi, s') \<Rightarrow>
          (case posterior_of yi of
             Inl e \<Rightarrow> (Inl e, s')
           | Inr posterior \<Rightarrow>
               (case get_mean posterior of
                  Inl e \<Rightarrow> (Inl e, s')
                | Inr m \<Rightarrow>
                    (let y_preds = y_preds @ [to_numpy (nonlin m)]
                     in if \<not> return_std
                        then predict_loop nonlin to_numpy return_std gs y_preds y_stds s'
                        else (case get_stddev posterior of
                                Inl e \<Rightarrow> (Inl e, s')
                              | Inr sd \<Rightarrow>
                                  predict_loop nonlin to_numpy return_std gs y_preds
                                    (y_stds @ [to_numpy (nonlin sd)]) s')))))"

datatype predict_result = Pred "real ndarray" | PredStd "real ndarray" "real ndarray"

definition return_cov_msg :: string where
  "return_cov_msg =
     ''The '' @ [CHR 0x27] @ ''return_cov'' @ [CHR 0x27] @
     '' argument is not supported. Please try: '' @ [CHR 0x27] @
     ''posterior = next(gpr.forward_iter(X)); posterior.covariance_matrix'' @ [CHR 0x27] @ ''.''"

text \<open>
  \<^verbatim>\<open>
  if return_cov:
      raise NotImplementedError(msg)
  nonlin = self._get_predict_nonlinearity()
  y_preds, y_stds = [], []
  for ...
  y_pred = np.concatenate(y_preds, 0)
  if not return_std:
      return y_pred
  y_std = np.concatenate(y_stds, 0)
  return y_pred, y_std
  \<close>
  \<open>get_predict_nonlinearity\<close>, \<open>to_numpy\<close> and \<open>forward_iter\<close> are the framework's.
\<close>

definition GPRegressorPredictMixin_predict ::
  "('s \<Rightarrow> error + (tensor \<Rightarrow> tensor)) \<Rightarrow> (tensor \<Rightarrow> real ndarray) \<Rightarrow>
   ('x \<Rightarrow> bool \<Rightarrow> string option \<Rightarrow> 's \<Rightarrow> ('e module_output, 's) generator) \<Rightarrow>
   'x \<Rightarrow> bool \<Rightarrow> bool \<Rightarrow> 's \<Rightarrow> (error + predict_result) \<times> 's" where
  "GPRegressorPredictMixin_predict get_predict_nonlinearity to_numpy forward_iter
       X return_std return_cov s =
     (if return_cov then (Inl (NotImplementedError return_cov_msg), s)
      else
        (case get_predict_nonlinearity s of
           Inl e \<Rightarrow> (Inl e, s)
         | Inr nonlin \<Rightarrow>
             (case predict_loop nonlin to_numpy return_std (forward_iter X False None s) [] [] s of
                (Inl e, s') \<Rightarrow> (Inl e, s')
              | (Inr (y_preds, y_stds), s') \<Rightarrow>
                  (case np_concatenate y_preds of
                     Inl e \<Rightarrow> (Inl e, s')
                   | Inr y_pred \<Rightarrow>
                       if \<not> return_std then (Inr (Pred y_pred), s')
                       else (case np_concatenate y_stds of
                               Inl e \<Rightarrow> (Inl e, s')
                             | Inr y_std \<Rightarrow> (Inr (PredStd y_pred y_std), s'))))))"

subsection \<open>\<^verbatim>\<open>GPBinaryClassifier.predict_proba\<close> and \<^verbatim>\<open>predict\<close>\<close>

text \<open>
  \<^verbatim>\<open>
  for yi in self.forward_iter(X, training=False):
      posterior = yi[0] if isinstance(yi, tuple) else yi
      y_probas.append(to_numpy(nonlin(posterior.mean)))
  \<close>
\<close>

fun predict_proba_loop ::
  "(tensor \<Rightarrow> tensor) \<Rightarrow> (tensor \<Rightarrow> real ndarray) \<Rightarrow>
   ('e module_output, 's) generator \<Rightarrow> real ndarray list \<Rightarrow> 's \<Rightarrow>
   (error + real ndarray list) \<times> 's" where
  "predict_proba_loop nonlin to_numpy [] y_probas s = (Inr y_probas, s)"
| "predict_proba_loop nonlin to_numpy (g # gs) y_probas s =
     (case g s of
        (Inl e, s') \<Rightarrow> (Inl e, s')
      | (Inr yi, s') \<Rightarrow>
          (case posterior_of yi of
             Inl e \<Rightarrow> (Inl e, s')
           | Inr posterior \<Rightarrow>
               (case get_mean posterior of
                  Inl e \<Rightarrow> (Inl e, s')
                | Inr m \<Rightarrow>
                    predict_proba_loop nonlin to_numpy gs
                      (y_probas @ [to_numpy (nonlin m)]) s')))"

text \<open>
  \<^verbatim>\<open>
  nonlin = self._get_predict_nonlinearity()
  y_probas = []
  for ...
  y_proba = np.concatenate(y_probas, 0).reshape(-1, 1)
  return np.hstack((1 - y_proba, y_proba))
  \<close>
\<close>

definition GPBinaryClassifier_predict_proba ::
  "('s \<Rightarrow> error + (tensor \<Rightarrow> tensor)) \<Rightarrow> (tensor \<Rightarrow> real ndarray) \<Rightarrow>
   ('x \<Rightarrow> bool \<Rightarrow> string option \<Rightarrow> 's \<Rightarrow> ('e module_output, 's) generator) \<Rightarrow>
   'x \<Rightarrow> 's \<Rightarrow> (error + real ndarray) \<times> 's" where
  "GPBinaryClassifier_predict_proba get_predict_nonlinearity to_numpy forward_iter X s =
     (case get_predict_nonlinearity s of
        Inl e \<Rightarrow> (Inl e, s)
      | Inr nonlin \<Rightarrow>
          (case predict_proba_loop nonlin to_numpy (forward_iter X False None s) [] s of
             (Inl e, s') \<Rightarrow> (Inl e, s')
           | (Inr y_probas, s') \<Rightarrow>
               (case np_concatenate y_probas of
                  Inl e \<Rightarrow> (Inl e, s')
                | Inr joined \<Rightarrow>
                    (let y_proba = reshape_column joined
                     in (np_hstack (rsub 1 y_proba) y_proba, s')))))"


subsection \<open>\<^verbatim>\<open>predict_proba\<close> of each class\<close>

text \<open>
  Only \<^verbatim>\<open>GPBinaryClassifier\<close> defines \<^verbatim>\<open>predict_proba\<close>; the regressors inherit the
  one of \<^verbatim>\<open>GPBase\<close> (the mixin has none).
\<close>

definition predict_proba ::
  "(('e, 'w, 'c, 'f) net \<Rightarrow> error + (tensor \<Rightarrow> tensor)) \<Rightarrow> (tensor \<Rightarrow> real ndarray) \<Rightarrow>
   ('x \<Rightarrow> bool \<Rightarrow> string option \<Rightarrow> ('e, 'w, 'c, 'f) net \<Rightarrow>
      ('e module_output, ('e, 'w, 'c, 'f) net) generator) \<Rightarrow>
   'x \<Rightarrow> ('e, 'w, 'c, 'f) net \<Rightarrow> (error + real ndarray) \<times> ('e, 'w, 'c, 'f) net" where
  "predict_proba get_predict_nonlinearity to_numpy forward_iter X s =
     (case cls s of
        GPBinaryClassifier \<Rightarrow>
          GPBinaryClassifier_predict_proba get_predict_nonlinearity to_numpy forward_iter X s
      | _ \<Rightarrow> GPBase_predict_proba X s)"

subsection \<open>\<^verbatim>\<open>GPBase.initialize_criterion\<close>\<close>

text \<open>
  \<^verbatim>\<open>
  criterion_params = self.get_params_for('criterion')
  self.criterion_ = self.criterion(
      likelihood=self.likelihood_, model=self.module_, **criterion_params)
  return self
  \<close>
  A key of \<^verbatim>\<open>criterion_params\<close> that repeats an explicit keyword is a \<^verbatim>\<open>TypeError\<close>.
  \<open>get_params_for\<close> is the framework's.
\<close>

definition criterion_kwargs ::
  "('e pyval \<Rightarrow> error + 'e pyval) \<Rightarrow> 'w torch_module \<Rightarrow> (string \<rightharpoonup> 'e) \<Rightarrow>
   (string \<rightharpoonup> ('e, 'w) kwarg)" where
  "criterion_kwargs ll m criterion_params =
     (\<lambda>k. if k = ''likelihood'' then Some (LikelihoodArg ll)
          else if k = ''model'' then Some (ModelArg m)
          else map_option ParamArg (criterion_params k))"

definition initialize_criterion ::
  "(string \<Rightarrow> ('e, 'w, 'c, 'f) net \<Rightarrow> (string \<rightharpoonup> 'e)) \<Rightarrow>
   ('e, 'w, 'c, 'f) net \<Rightarrow> (error + unit) \<times> ('e, 'w, 'c, 'f) net" where
  "initialize_criterion get_params_for s =
     (let criterion_params = get_params_for ''criterion'' s
      in case likelihood_inst s of
           None \<Rightarrow> (Inl (AttributeError ''likelihood_''), s)
         | Some ll \<Rightarrow>
             (case module_inst s of
                None \<Rightarrow> (Inl (AttributeError ''module_''), s)
              | Some m \<Rightarrow>
                  if criterion_params ''likelihood'' \<noteq> None \<or> criterion_params ''model'' \<noteq> None
                  then (Inl (TypeError ''got multiple values for keyword argument''), s)
                  else (case criterion s (criterion_kwargs ll m criterion_params) of
                          Inl e \<Rightarrow> (Inl e, s)
                        | Inr c \<Rightarrow> (Inr (), s\<lparr>criterion_inst := Some c\<rparr>))))"

subsection \<open>\<^verbatim>\<open>GPBase.train_step_single\<close>\<close>

text \<open>
  \<^verbatim>\<open>
  step = super().train_step_single(batch, **fit_params)
  step['y_pred'] = self.likelihood_(step['y_pred'])
  return step
  \<close>
\<close>

definition train_step_single ::
  "('b \<Rightarrow> 'k \<Rightarrow> ('e, 'w, 'c, 'f) net \<Rightarrow>
      (error + (string \<rightharpoonup> 'e pyval)) \<times> ('e, 'w, 'c, 'f) net) \<Rightarrow>
   'b \<Rightarrow> 'k \<Rightarrow> ('e, 'w, 'c, 'f) net \<Rightarrow>
   (error + (string \<rightharpoonup> 'e pyval)) \<times> ('e, 'w, 'c, 'f) net" where
  "train_step_single super_train_step_single batch fit_params s =
     (case super_train_step_single batch fit_params s of
        (Inl e, s') \<Rightarrow> (Inl e, s')
      | (Inr step, s') \<Rightarrow>
          (case likelihood_inst s' of
             None \<Rightarrow> (Inl (AttributeError ''likelihood_''), s')
           | Some ll \<Rightarrow>
               (case step ''y_pred'' of
                  None \<Rightarrow> (Inl (KeyError ''y_pred''), s')
                | Some y \<Rightarrow>
                    (case ll y of
                       Inl e \<Rightarrow> (Inl e, s')
                     | Inr p \<Rightarrow> (Inr (step(''y_pred'' \<mapsto> p)), s')))))"

subsection \<open>\<^verbatim>\<open>GPBase.evaluation_step\<close>\<close>

text \<open>
  \<^verbatim>\<open>
  self.check_is_fitted()
  Xi, _ = unpack_data(batch)
  with torch.set_grad_enabled(training), gpytorch.settings.fast_pred_var():
      self.module_.train(training)
      y_infer = self.infer(Xi)
      if isinstance(y_infer, tuple):  # multiple outputs:
          return (self.likelihood_(y_infer[0]),) + y_infer[1:]
      return self.likelihood_(y_infer)
  \<close>
  The body of the \<^verbatim>\<open>with\<close> block is \<open>evaluation_step_body\<close>. The block sets the two
  library switches on entry and puts their previous values back on exit, also when the
  body raises. \<open>check_is_fitted\<close>, \<open>unpack_data\<close> and \<open>infer\<close> are the framework's.
\<close>

definition apply_likelihood ::
  "('e, 'w, 'c, 'f) net \<Rightarrow> 'e module_output \<Rightarrow> error + 'e module_output" where
  "apply_likelihood s y_infer =
     (case y_infer of
        Tuple ys \<Rightarrow>
          (case likelihood_inst s of
             None \<Rightarrow> Inl (AttributeError ''likelihood_'')
           | Some ll \<Rightarrow>
               (case ys of
                  [] \<Rightarrow> Inl (IndexError ''tuple index out of range'')
                | y # rest \<Rightarrow>
                    (case ll y of Inl e \<Rightarrow> Inl e | Inr p \<Rightarrow> Inr (Tuple (p # rest)))))
      | Single y \<Rightarrow>
          (case likelihood_inst s of
             None \<Rightarrow> Inl (AttributeError ''likelihood_'')
           | Some ll \<Rightarrow> (case ll y of Inl e \<Rightarrow> Inl e | Inr p \<Rightarrow> Inr (Single p))))"

definition evaluation_step_body ::
  "('xi \<Rightarrow> ('e, 'w, 'c, 'f) net \<Rightarrow> (error + 'e module_output) \<times> ('e, 'w, 'c, 'f) net) \<Rightarrow>
   'xi \<Rightarrow> bool \<Rightarrow> ('e, 'w, 'c, 'f) net \<Rightarrow>
   (error + 'e module_output) \<times> ('e, 'w, 'c, 'f) net" where
  "evaluation_step_body infer Xi is_training s =
     (case module_inst s of
        None \<Rightarrow> (Inl (AttributeError ''module_''), s)
      | Some m \<Rightarrow>
          (case infer Xi (s\<lparr>module_inst := Some (train is_training m)\<rparr>) of
             (Inl e, s') \<Rightarrow> (Inl e, s')
           | (Inr y_infer, s') \<Rightarrow> (apply_likelihood s' y_infer, s')))"

definition evaluation_step ::
  "(('e, 'w, 'c, 'f) net \<Rightarrow> error + unit) \<Rightarrow> ('b \<Rightarrow> error + 'xi \<times> 'yi) \<Rightarrow>
   ('xi \<Rightarrow> ('e, 'w, 'c, 'f) net \<Rightarrow> (error + 'e module_output) \<times> ('e, 'w, 'c, 'f) net) \<Rightarrow>
   'b \<Rightarrow> bool \<Rightarrow> ('e, 'w, 'c, 'f) net \<Rightarrow>
   (error + 'e module_output) \<times> ('e, 'w, 'c, 'f) net" where
  "evaluation_step check_is_fitted unpack_data infer batch is_training s =
     (case check_is_fitted s of
        Inl e \<Rightarrow> (Inl e, s)
      | Inr _ \<Rightarrow>
          (case unpack_data batch of
             Inl e \<Rightarrow> (Inl e, s)
           | Inr (Xi, _) \<Rightarrow>
               (case evaluation_step_body infer Xi is_training
                       (s\<lparr>grad_enabled := is_training, fast_pred_var := True\<rparr>) of
                  (r, s') \<Rightarrow>
                    (r, s'\<lparr>grad_enabled := grad_enabled s,
                           fast_pred_var := fast_pred_var s\<rparr>))))"

subsection \<open>Strings\<close>

text \<open>
  A Python string is a list of characters; the eight-bit characters of HOL cover the code
  points below 256. \<^verbatim>\<open>s.find(sub)\<close> is the lowest index at which \<open>sub\<close> occurs in
  \<open>s\<close>, or \<open>-1\<close>; \<^verbatim>\<open>s[i:]\<close> counts a negative \<open>i\<close> from the end.
\<close>

fun find_sub_from :: "string \<Rightarrow> nat \<Rightarrow> string \<Rightarrow> int" where
  "find_sub_from sub i [] = (if sub = [] then int i else - 1)"
| "find_sub_from sub i (x # xs) =
     (if take (length sub) (x # xs) = sub then int i else find_sub_from sub (Suc i) xs)"

definition find_sub :: "string \<Rightarrow> string \<Rightarrow> int" where
  "find_sub s sub = find_sub_from sub 0 s"

definition slice_from :: "string \<Rightarrow> int \<Rightarrow> string" where
  "slice_from s i = (if i < 0 then drop (nat (int (length s) + i)) s else drop (nat i) s)"

subsection \<open>Regular expressions\<close>

text \<open>
  The patterns of the module use character classes (\<^verbatim>\<open>\s\<close>, \<^verbatim>\<open>.\<close>, single
  characters), concatenation, groups, and the greedy repetitions \<^verbatim>\<open>*\<close>, \<^verbatim>\<open>+\<close> of a
  class and \<^verbatim>\<open>{m,n}\<close> of a group. \<^verbatim>\<open>\s\<close> is the whitespace of a Unicode pattern,
  \<^verbatim>\<open>.\<close> is every character but the newline.
\<close>

datatype cclass = Ch char | Space | Dot

definition is_space :: "char \<Rightarrow> bool" where
  "is_space c =
     (c \<in> {CHR 0x09, CHR 0x0A, CHR 0x0B, CHR 0x0C, CHR 0x0D, CHR 0x1C, CHR 0x1D, CHR 0x1E,
           CHR 0x1F, CHR 0x20, CHR 0x85, CHR 0xA0})"

fun in_class :: "cclass \<Rightarrow> char \<Rightarrow> bool" where
  "in_class (Ch c) x = (x = c)"
| "in_class Space x = is_space x"
| "in_class Dot x = (x \<noteq> CHR 0x0A)"

datatype regex =
    Eps
  | Cls cclass
  | Seq regex regex
  | Star cclass
  | Plus cclass
  | Repeat regex nat nat
  | Group regex

text \<open>
  The matcher of \<^verbatim>\<open>re\<close> backtracks: \<open>rmatch r s k\<close> matches \<open>r\<close> at the start of \<open>s\<close>
  and hands the rest of \<open>s\<close> to the continuation \<open>k\<close>, which matches what follows \<open>r\<close>
  in the pattern; when \<open>k\<close> fails, the next way of matching \<open>r\<close> is tried. A greedy
  repetition tries one more round before it tries to stop. The result is the rest of the
  string after the first match found.
\<close>

fun star_cls :: "cclass \<Rightarrow> string \<Rightarrow> (string \<Rightarrow> string option) \<Rightarrow> string option" where
  "star_cls c [] k = k []"
| "star_cls c (x # xs) k =
     (if in_class c x
      then (case star_cls c xs k of Some rest \<Rightarrow> Some rest | None \<Rightarrow> k (x # xs))
      else k (x # xs))"

fun repeat_match ::
  "(string \<Rightarrow> (string \<Rightarrow> string option) \<Rightarrow> string option) \<Rightarrow> nat \<Rightarrow> nat \<Rightarrow>
   string \<Rightarrow> (string \<Rightarrow> string option) \<Rightarrow> string option" where
  "repeat_match f lo 0 s k = (if lo = 0 then k s else None)"
| "repeat_match f lo (Suc hi) s k =
     (case f s (\<lambda>s'. repeat_match f (lo - 1) hi s' k) of
        Some rest \<Rightarrow> Some rest
      | None \<Rightarrow> if lo = 0 then k s else None)"

fun rmatch :: "regex \<Rightarrow> string \<Rightarrow> (string \<Rightarrow> string option) \<Rightarrow> string option" where
  "rmatch Eps s k = k s"
| "rmatch (Cls c) s k =
     (case s of [] \<Rightarrow> None | x # xs \<Rightarrow> if in_class c x then k xs else None)"
| "rmatch (Seq r1 r2) s k = rmatch r1 s (\<lambda>s'. rmatch r2 s' k)"
| "rmatch (Star c) s k = star_cls c s k"
| "rmatch (Plus c) s k =
     (case s of [] \<Rightarrow> None | x # xs \<Rightarrow> if in_class c x then star_cls c xs k else None)"
| "rmatch (Repeat r lo hi) s k = repeat_match (rmatch r) lo hi s k"
| "rmatch (Group r) s k = rmatch r s k"

text \<open>
  \<^verbatim>\<open>pattern.search(doc).span()\<close>: the first position at which the pattern matches, and
  the end of the match there. Without a match \<^verbatim>\<open>search\<close> returns \<^verbatim>\<open>None\<close>.
\<close>

fun search_from :: "regex \<Rightarrow> nat \<Rightarrow> string \<Rightarrow> (nat \<times> nat) option" where
  "search_from r i [] =
     (case rmatch r [] Some of Some rest \<Rightarrow> Some (i, i) | None \<Rightarrow> None)"
| "search_from r i (x # xs) =
     (case rmatch r (x # xs) Some of
        Some rest \<Rightarrow> Some (i, i + (length (x # xs) - length rest))
      | None \<Rightarrow> search_from r (Suc i) xs)"

definition search :: "regex \<Rightarrow> string \<Rightarrow> (nat \<times> nat) option" where
  "search r doc = search_from r 0 doc"

subsection \<open>Documentation texts\<close>

text \<open>The module-level string constants that \<^verbatim>\<open>get_exact_gp_regr_doc\<close> inserts.\<close>

definition exact_gp_regr_doc_start :: string where
  "exact_gp_regr_doc_start =
     ''Exact Gaussian Process regressor\<newline>'' @
     ''\<newline>'' @
     ''    Use this specifically if you want to perform an exact solution to the\<newline>'' @
     ''    Gaussian Process. This implies that the module should by a\<newline>'' @
     ''    :class:`~gpytorch.models.ExactGP` module and you cannot use batching (i.e.\<newline>'' @
     ''    batch size should be -1).\<newline>'' @
     ''\<newline>''"

definition exact_gp_regr_module_text :: string where
  "exact_gp_regr_module_text =
     ''\<newline>'' @
     ''\<newline>'' @
     ''    Module : gpytorch.models.ExactGP (class or instance)\<newline>'' @
     ''      The module needs to return a\<newline>'' @
     ''      :class:`~gpytorch.distributions.MultivariateNormal` distribution.\<newline>'' @
     ''\<newline>''"

definition exact_gp_regr_criterion_text :: string where
  "exact_gp_regr_criterion_text =
     ''\<newline>'' @
     ''\<newline>'' @
     ''    likelihood : gpytorch.likelihoods.GaussianLikelihood (class or instance)\<newline>'' @
     ''      The likelihood used for the exact GP regressor. Usually doesn't need to be\<newline>'' @
     ''      changed.\<newline>'' @
     ''\<newline>'' @
     ''    criterion : gpytorch.mlls.ExactMarginalLogLikelihood\<newline>'' @
     ''      The objective function to learn the posterior of of the GP regressor.\<newline>'' @
     ''      Usually doesn't need to be changed.\<newline>'' @
     ''\<newline>''"

definition exact_gp_regr_batch_size_text :: string where
  "exact_gp_regr_batch_size_text =
     ''\<newline>'' @
     ''\<newline>'' @
     ''    batch_size : int (default=-1)\<newline>'' @
     ''      Mini-batch size. For exact GPs, it must be set to -1, since the exact\<newline>'' @
     ''      solution cannot deal with batching. To make use of batching, use\<newline>'' @
     ''      :class:`.GPRegressor` in conjunction with a variational strategy.\<newline>'' @
     ''\<newline>''"

definition gp_regr_train_split_text :: string where
  "gp_regr_train_split_text =
     ''\<newline>'' @
     ''\<newline>'' @
     ''    train_split : None or callable (default=None)\<newline>'' @
     ''      If None, there is no train/validation split. Else, train_split should be a\<newline>'' @
     ''      function or callable that is called with X and y data and should return\<newline>'' @
     ''      the tuple ``dataset_train, dataset_valid``. The validation data may be\<newline>'' @
     ''      None. There is no default train split for GP regressors because random\<newline>'' @
     ''      splitting is typically not desired, e.g. because there is a temporal\<newline>'' @
     ''      relationship between samples.\<newline>'' @
     ''\<newline>''"

definition gp_likelihood_attribute_text :: string where
  "gp_likelihood_attribute_text =
     ''\<newline>'' @
     ''\<newline>'' @
     ''    likelihood_: torch module (instance)\<newline>'' @
     ''      The instantiated likelihood.\<newline>'' @
     ''\<newline>''"

subsection \<open>\<^verbatim>\<open>get_exact_gp_regr_doc\<close>\<close>

text \<open>The pattern text as a regular expression: a literal is the sequence of its characters.\<close>

fun literal :: "string \<Rightarrow> regex" where
  "literal [] = Eps"
| "literal (c # cs) = Seq (Cls (Ch c)) (literal cs)"

text \<open>
  \<^verbatim>\<open>re.compile(r'(\n\s+)(module .*\n)(\s.+){1,99}')\<close>, and the same with
  \<^verbatim>\<open>criterion\<close>, \<^verbatim>\<open>batch_size\<close> and \<^verbatim>\<open>train_split\<close> for \<^verbatim>\<open>module\<close>.
\<close>

definition param_pattern :: "string \<Rightarrow> regex" where
  "param_pattern name =
     Seq (Group (Seq (Cls (Ch CHR 0x0A)) (Plus Space)))
       (Seq (Group (Seq (literal (name @ '' '')) (Seq (Star Dot) (Cls (Ch CHR 0x0A)))))
            (Repeat (Group (Seq (Cls Space) (Plus Dot))) 1 99))"

text \<open>
  \<^verbatim>\<open>
  start, end = pattern.search(doc).span()
  doc = doc[:start] + text + doc[end:]
  \<close>
\<close>

definition replace_match :: "regex \<Rightarrow> string \<Rightarrow> string \<Rightarrow> error + string" where
  "replace_match pattern text doc =
     (case search pattern doc of
        None \<Rightarrow> Inl (AttributeError
                  ([CHR 0x27] @ ''NoneType'' @ [CHR 0x27] @ '' object has no attribute '' @
                   [CHR 0x27] @ ''span'' @ [CHR 0x27]))
      | Some (start, end) \<Rightarrow> Inr (take start doc @ text @ drop end doc))"

definition params_header :: string where
  "params_header = ''    Parameters\<newline>    ----------''"

text \<open>
  \<^verbatim>\<open>
  params_start_idx = doc.find('    Parameters\n    ----------')
  doc = doc[params_start_idx:]
  doc = exact_gp_regr_doc_start + " " + doc
  \<close>
  followed by the four replacements, for \<^verbatim>\<open>module\<close>, \<^verbatim>\<open>criterion\<close>, \<^verbatim>\<open>batch_size\<close> and
  \<^verbatim>\<open>train_split\<close> in this order, and by
  \<^verbatim>\<open>doc = doc + gp_likelihood_attribute_text\<close>.
\<close>

definition get_exact_gp_regr_doc :: "string \<Rightarrow> error + string" where
  "get_exact_gp_regr_doc doc0 =
     (let params_start_idx = find_sub doc0 params_header;
          doc = slice_from doc0 params_start_idx;
          doc = exact_gp_regr_doc_start @ '' '' @ doc
      in case replace_match (param_pattern ''module'') exact_gp_regr_module_text doc of
           Inl e \<Rightarrow> Inl e
         | Inr doc \<Rightarrow>
       (case replace_match (param_pattern ''criterion'') exact_gp_regr_criterion_text doc of
           Inl e \<Rightarrow> Inl e
         | Inr doc \<Rightarrow>
       (case replace_match (param_pattern ''batch_size'') exact_gp_regr_batch_size_text doc of
           Inl e \<Rightarrow> Inl e
         | Inr doc \<Rightarrow>
       (case replace_match (param_pattern ''train_split'') gp_regr_train_split_text doc of
           Inl e \<Rightarrow> Inl e
         | Inr doc \<Rightarrow> Inr (doc @ gp_likelihood_attribute_text)))))"

section \<open>Auxiliary notions for the proofs\<close>

text \<open>
  \<open>no_start r p rest\<close>: in the text \<open>p @ rest\<close>, the pattern \<open>r\<close> matches at no position
  inside \<open>p\<close>.
\<close>

fun no_start :: "regex \<Rightarrow> string \<Rightarrow> string \<Rightarrow> bool" where
  "no_start r [] rest = True"
| "no_start r (x # xs) rest = (rmatch r (x # xs @ rest) Some = None \<and> no_start r xs rest)"

text \<open>
  The text that \<^verbatim>\<open>get_exact_gp_regr_doc\<close> puts in front, up to the first letter of the
  header, and the rest of the header.
\<close>

definition doc_prefix :: string where
  "doc_prefix = exact_gp_regr_doc_start @ '' '' @ ''    P''"

definition header_rest :: string where
  "header_rest = ''arameters\<newline>    ----------''"

definition pattern_names :: "string list" where
  "pattern_names = [''module'', ''criterion'', ''batch_size'', ''train_split'']"

text \<open>A replacement text without the blank line that ends it.\<close>

definition strip2 :: "string \<Rightarrow> string" where
  "strip2 t = take (length t - 2) t"

section \<open>Example inputs\<close>

subsection \<open>An estimator and its collaborators\<close>

definition demo_super_get_loss ::
  "tensor \<Rightarrow> real \<Rightarrow> unit option \<Rightarrow> bool \<Rightarrow> unit \<Rightarrow> (error + tensor) \<times> unit" where
  "demo_super_get_loss y_pred y_true X is_training s =
     (Inr (NDArray (shape y_pred) (map (\<lambda>y. y - y_true) (elems y_pred))), s)"

definition demo_likelihood :: "nat pyval \<Rightarrow> error + nat pyval" where
  "demo_likelihood y =
     (case y of
        Dist d \<Rightarrow>
          Inr (Dist (Distribution (mean d)
                 (NDArray (shape (stddev d)) (map (\<lambda>x. x + 1) (elems (stddev d))))))
      | Obj x \<Rightarrow> Inl (TypeError ''likelihood''))"

definition demo_criterion :: "(string \<rightharpoonup> (nat, unit) kwarg) \<Rightarrow> error + nat" where
  "demo_criterion kw =
     (case (kw ''likelihood'', kw ''model'', kw ''num_data'') of
        (Some (LikelihoodArg ll), Some (ModelArg m), Some (ParamArg n)) \<Rightarrow> Inr n
      | _ \<Rightarrow> Inl (TypeError ''criterion''))"

definition demo_net :: "(nat, unit, nat, unit) net" where
  "demo_net = \<lparr>cls = GPRegressor, criterion = demo_criterion,
      likelihood_inst = Some demo_likelihood,
      module_inst = Some \<lparr>training = True, weights = ()\<rparr>,
      criterion_inst = None, threshold = 1 / 2, grad_enabled = True, fast_pred_var = False,
      base = ()\<rparr>"

definition demo_classifier :: "(nat, unit, nat, unit) net" where
  "demo_classifier = demo_net\<lparr>cls := GPBinaryClassifier\<rparr>"

definition demo_params :: "string \<Rightarrow> (nat, unit, nat, unit) net \<Rightarrow> (string \<rightharpoonup> nat)" where
  "demo_params prefix s =
     (if prefix = ''criterion'' then [''num_data'' \<mapsto> 100] else Map.empty)"

definition demo_check_is_fitted :: "(nat, unit, nat, unit) net \<Rightarrow> error + unit" where
  "demo_check_is_fitted s =
     (case module_inst s of
        None \<Rightarrow> Inl (NotInitializedError ''This net is not initialized yet.'')
      | Some m \<Rightarrow> Inr ())"

definition demo_unpack_data :: "distribution \<times> unit \<Rightarrow> error + distribution \<times> unit" where
  "demo_unpack_data batch = Inr batch"

definition demo_infer ::
  "distribution \<Rightarrow> (nat, unit, nat, unit) net \<Rightarrow>
   (error + nat module_output) \<times> (nat, unit, nat, unit) net" where
  "demo_infer Xi s = (Inr (Single (Dist Xi)), s)"

definition demo_infer_tuple ::
  "distribution \<Rightarrow> (nat, unit, nat, unit) net \<Rightarrow>
   (error + nat module_output) \<times> (nat, unit, nat, unit) net" where
  "demo_infer_tuple Xi s = (Inr (Tuple [Dist Xi, Obj 5]), s)"

definition demo_dist :: distribution where
  "demo_dist = Distribution (NDArray [2] [1 / 4, 3 / 4]) (NDArray [2] [1, 2])"

definition demo_step ::
  "unit \<Rightarrow> unit \<Rightarrow> (nat, unit, nat, unit) net \<Rightarrow>
   (error + (string \<rightharpoonup> nat pyval)) \<times> (nat, unit, nat, unit) net" where
  "demo_step batch fit_params s =
     (Inr [''loss'' \<mapsto> Obj 7, ''y_pred'' \<mapsto> Dist demo_dist], s)"

definition demo_get_predict_nonlinearity :: "'s \<Rightarrow> error + (tensor \<Rightarrow> tensor)" where
  "demo_get_predict_nonlinearity s = Inr (\<lambda>t. t)"

definition demo_to_numpy :: "tensor \<Rightarrow> real ndarray" where
  "demo_to_numpy t = t"

text \<open>A data loader that yields one batch for each distribution of its input.\<close>

definition demo_forward_iter ::
  "distribution list \<Rightarrow> bool \<Rightarrow> string option \<Rightarrow> 's \<Rightarrow> (nat module_output, 's) generator" where
  "demo_forward_iter X is_training device s = map (\<lambda>d s. (Inr (Single (Dist d)), s)) X"

definition demo_batches :: "distribution list" where
  "demo_batches =
     [Distribution (NDArray [2] [1 / 4, 3 / 4]) (NDArray [2] [1, 2]),
      Distribution (NDArray [1] [1 / 2]) (NDArray [1] [3])]"

subsection \<open>A docstring in the layout of the framework's\<close>

definition sample_title :: string where
  "sample_title = ''NeuralNet base class.\<newline>\<newline>''"

definition sample_module_par :: string where
  "sample_module_par =
     ''\<newline>'' @
     ''    module : torch module (class or instance)\<newline>'' @
     ''      A PyTorch module.''"

definition sample_criterion_par :: string where
  "sample_criterion_par =
     ''\<newline>'' @
     ''    criterion : torch criterion (class)\<newline>'' @
     ''      The uninitialized criterion (loss) used to optimize the\<newline>'' @
     ''      module.''"

definition sample_batch_size_par :: string where
  "sample_batch_size_par =
     ''\<newline>'' @
     ''    batch_size : int (default=128)\<newline>'' @
     ''      Mini-batch size.''"

definition sample_train_split_par :: string where
  "sample_train_split_par =
     ''\<newline>'' @
     ''    train_split : None or callable\<newline>'' @
     ''      Split.''"

definition sample_attributes :: string where
  "sample_attributes =
     ''\<newline>'' @
     ''    Attributes\<newline>'' @
     ''    ----------\<newline>''"

definition sample_tail_4 :: string where
  "sample_tail_4 = ''\<newline>'' @ sample_attributes"

definition sample_tail_3 :: string where
  "sample_tail_3 = ''\<newline>'' @ sample_train_split_par @ sample_tail_4"

definition sample_tail_2 :: string where
  "sample_tail_2 = ''\<newline>'' @ sample_batch_size_par @ sample_tail_3"

definition sample_tail_1 :: string where
  "sample_tail_1 = ''\<newline>'' @ sample_criterion_par @ sample_tail_2"

definition sample_doc :: string where
  "sample_doc = sample_title @ params_header @ sample_module_par @ sample_tail_1"

subsection \<open>A docstring without blank lines between its parameters\<close>

definition compact_title :: string where
  "compact_title = ''Title\<newline>\<newline>''"

definition compact_params :: string where
  "compact_params =
     ''\<newline>'' @
     ''    module : m\<newline>'' @
     ''      a\<newline>'' @
     ''    criterion : c\<newline>'' @
     ''      b\<newline>'' @
     ''    batch_size : n\<newline>'' @
     ''      c\<newline>'' @
     ''    train_split : t\<newline>'' @
     ''      d''"

definition compact_doc :: string where
  "compact_doc = compact_title @ params_header @ compact_params @ ''\<newline>''"

section \<open>Properties of the estimator methods\<close>

subsection \<open>Loss\<close>

text \<open>
  C1. \<^verbatim>\<open>GPBase.get_loss\<close> returns the negation of the loss that the base class computes,
  after reducing that loss to its mean when it is not zero-dimensional; the returned
  tensor is therefore always a scalar.
\<close>

theorem get_loss_negated_scalar:
  assumes "super_get_loss y_pred y_true X is_training s = (Inr loss, s')"
  shows "\<exists>r. get_loss super_get_loss y_pred y_true X is_training s = (Inr r, s')
           \<and> r = tensor_neg (if tensor_dim loss = 0 then loss else tensor_mean loss)
           \<and> tensor_dim r = 0"
  using assms
  by (simp add: get_loss_def tensor_dim_def tensor_neg_def tensor_mean_def)

text \<open>
  A loss with two elements is averaged and negated; a scalar loss is only negated.
\<close>

theorem get_loss_negated_scalar_witness:
  "get_loss demo_super_get_loss (NDArray [2] [1, 3]) 1 None False () =
     (Inr (NDArray [] [- 1]), ())
   \<and> get_loss demo_super_get_loss (NDArray [] [4]) 1 None False () =
     (Inr (NDArray [] [- 3]), ())"
  using get_loss_negated_scalar
      [of demo_super_get_loss "NDArray [2] [1, 3]" 1 None False "()" "NDArray [2] [0, 2]" "()"]
    get_loss_negated_scalar
      [of demo_super_get_loss "NDArray [] [4]" 1 None False "()" "NDArray [] [3]" "()"]
  by (simp add: demo_super_get_loss_def tensor_dim_def tensor_neg_def tensor_mean_def)

subsection \<open>Forward pass\<close>

lemma list_of_length:
  "list_of gens s = (Inr ys, s') \<Longrightarrow> length ys = length gens"
  by (induction gens arbitrary: s ys) (auto split: prod.splits sum.splits)

text \<open>
  C2. When the iteration over the batches runs to its end, \<^verbatim>\<open>GPBase.forward\<close> returns
  the list of what \<^verbatim>\<open>forward_iter\<close> yielded, one element for each batch and in the order of
  the batches; the elements are not joined.
\<close>

theorem forward_list_per_batch:
  assumes "list_of (forward_iter X is_training (Some device) s) s = (Inr ys, s')"
  shows "forward forward_iter X is_training device s = (Inr ys, s')
       \<and> length ys = length (forward_iter X is_training (Some device) s)"
  using assms list_of_length [OF assms] by (simp add: forward_def)

theorem forward_list_per_batch_witness:
  "forward demo_forward_iter demo_batches False ''cpu'' () =
     (Inr [Single (Dist (Distribution (NDArray [2] [1 / 4, 3 / 4]) (NDArray [2] [1, 2]))),
           Single (Dist (Distribution (NDArray [1] [1 / 2]) (NDArray [1] [3])))], ())
   \<and> length (demo_forward_iter demo_batches False (Some ''cpu'') ()) = 2"
  using forward_list_per_batch
    [of demo_forward_iter demo_batches False "''cpu''" "()"
        "map (\<lambda>d. Single (Dist d)) demo_batches" "()"]
  by (simp add: demo_forward_iter_def demo_batches_def)

subsection \<open>Criterion\<close>

text \<open>
  C3. \<^verbatim>\<open>initialize_criterion\<close> succeeds exactly when the likelihood and the module have
  been instantiated, no criterion parameter is named \<^verbatim>\<open>likelihood\<close> or \<^verbatim>\<open>model\<close>, and the
  criterion's constructor accepts its arguments; it then stores the criterion built from
  the keyword arguments \<open>criterion_kwargs\<close>, and changes nothing else. In these arguments
  \<^verbatim>\<open>likelihood\<close> is the instantiated likelihood, \<^verbatim>\<open>model\<close> is the instantiated module,
  and every other key is the criterion parameter of that name.
\<close>

theorem initialize_criterion_kwargs:
  "(initialize_criterion get_params_for s = (Inr (), s')) =
     (\<exists>ll m c. likelihood_inst s = Some ll \<and> module_inst s = Some m
        \<and> get_params_for ''criterion'' s ''likelihood'' = None
        \<and> get_params_for ''criterion'' s ''model'' = None
        \<and> criterion s (criterion_kwargs ll m (get_params_for ''criterion'' s)) = Inr c
        \<and> s' = s\<lparr>criterion_inst := Some c\<rparr>)
   \<and> criterion_kwargs ll m ps ''likelihood'' = Some (LikelihoodArg ll)
   \<and> criterion_kwargs ll m ps ''model'' = Some (ModelArg m)
   \<and> (\<forall>k. k \<noteq> ''likelihood'' \<longrightarrow> k \<noteq> ''model'' \<longrightarrow>
          criterion_kwargs ll m ps k = map_option ParamArg (ps k))"
  by (auto simp: initialize_criterion_def criterion_kwargs_def Let_def
           split: option.splits sum.splits)

theorem initialize_criterion_kwargs_witness:
  "initialize_criterion demo_params demo_net = (Inr (), demo_net\<lparr>criterion_inst := Some 100\<rparr>)
   \<and> criterion_kwargs demo_likelihood \<lparr>training = True, weights = ()\<rparr>
         (demo_params ''criterion'' demo_net) ''num_data'' = Some (ParamArg 100)"
  using initialize_criterion_kwargs
    [of demo_params demo_net "demo_net\<lparr>criterion_inst := Some 100\<rparr>"
        demo_likelihood "\<lparr>training = True, weights = ()\<rparr>" "demo_params ''criterion'' demo_net"]
  by (simp add: demo_net_def demo_params_def demo_criterion_def criterion_kwargs_def)

subsection \<open>Training step\<close>

text \<open>
  C5. When the training step of the base class returns a dictionary with a \<^verbatim>\<open>y_pred\<close>
  entry and the likelihood accepts that entry, \<^verbatim>\<open>GPBase.train_step_single\<close> returns the
  same dictionary with \<^verbatim>\<open>y_pred\<close> replaced by the likelihood applied to it. Every other
  entry, \<^verbatim>\<open>loss\<close> among them, is the one of the base class.
\<close>

theorem train_step_single_frame:
  assumes "super_train_step_single batch fit_params s = (Inr step, s')"
    and "likelihood_inst s' = Some ll"
    and "step ''y_pred'' = Some y"
    and "ll y = Inr p"
  shows "train_step_single super_train_step_single batch fit_params s =
           (Inr (step(''y_pred'' \<mapsto> p)), s')
       \<and> (\<forall>k. k \<noteq> ''y_pred'' \<longrightarrow> (step(''y_pred'' \<mapsto> p)) k = step k)
       \<and> (step(''y_pred'' \<mapsto> p)) ''loss'' = step ''loss''"
  using assms by (simp add: train_step_single_def)

theorem train_step_single_frame_witness:
  "train_step_single demo_step () () demo_net =
     (Inr [''loss'' \<mapsto> Obj 7,
           ''y_pred'' \<mapsto> Dist (Distribution (NDArray [2] [1 / 4, 3 / 4]) (NDArray [2] [2, 3]))],
      demo_net)"
  using train_step_single_frame
    [of demo_step "()" "()" demo_net "[''loss'' \<mapsto> Obj 7, ''y_pred'' \<mapsto> Dist demo_dist]"
        demo_net demo_likelihood "Dist demo_dist"
        "Dist (Distribution (NDArray [2] [1 / 4, 3 / 4]) (NDArray [2] [2, 3]))"]
  by (simp add: demo_step_def demo_net_def demo_likelihood_def demo_dist_def)

subsection \<open>Evaluation step\<close>

text \<open>
  C6. \<^verbatim>\<open>GPBase.evaluation_step\<close> first checks that the estimator is fitted. When the
  check raises, the step raises the same error and leaves the estimator as it was,
  whatever \<^verbatim>\<open>infer\<close> is. When the estimator is fitted, the step returns the likelihood
  applied to the result of \<^verbatim>\<open>infer\<close> on the input of the batch; of a tuple only the first
  element goes through the likelihood, and the others are returned as they are.
\<close>

theorem evaluation_step_fitted_likelihood:
  "(check_is_fitted s = Inl e \<longrightarrow>
      evaluation_step check_is_fitted unpack_data infer batch is_training s = (Inl e, s))
   \<and> (check_is_fitted s = Inr () \<longrightarrow> unpack_data batch = Inr (Xi, yi) \<longrightarrow>
        module_inst s = Some m \<longrightarrow>
        infer Xi (s\<lparr>grad_enabled := is_training, fast_pred_var := True,
                    module_inst := Some (train is_training m)\<rparr>) = (Inr y_infer, s2) \<longrightarrow>
        likelihood_inst s2 = Some ll \<longrightarrow> ll y = Inr p \<longrightarrow>
        (y_infer = Single y \<longrightarrow>
           evaluation_step check_is_fitted unpack_data infer batch is_training s =
             (Inr (Single p), s2\<lparr>grad_enabled := grad_enabled s,
                                 fast_pred_var := fast_pred_var s\<rparr>))
        \<and> (y_infer = Tuple (y # rest) \<longrightarrow>
           evaluation_step check_is_fitted unpack_data infer batch is_training s =
             (Inr (Tuple (p # rest)), s2\<lparr>grad_enabled := grad_enabled s,
                                        fast_pred_var := fast_pred_var s\<rparr>)))"
  by (auto simp: evaluation_step_def evaluation_step_body_def apply_likelihood_def)

theorem evaluation_step_fitted_likelihood_witness:
  "evaluation_step demo_check_is_fitted demo_unpack_data demo_infer (demo_dist, ()) False
     (demo_net\<lparr>module_inst := None\<rparr>) =
     (Inl (NotInitializedError ''This net is not initialized yet.''),
      demo_net\<lparr>module_inst := None\<rparr>)
   \<and> evaluation_step demo_check_is_fitted demo_unpack_data demo_infer (demo_dist, ()) False
       demo_net =
     (Inr (Single (Dist (Distribution (NDArray [2] [1 / 4, 3 / 4]) (NDArray [2] [2, 3])))),
      demo_net\<lparr>module_inst := Some \<lparr>training = False, weights = ()\<rparr>\<rparr>)
   \<and> evaluation_step demo_check_is_fitted demo_unpack_data demo_infer_tuple (demo_dist, ())
       False demo_net =
     (Inr (Tuple [Dist (Distribution (NDArray [2] [1 / 4, 3 / 4]) (NDArray [2] [2, 3])), Obj 5]),
      demo_net\<lparr>module_inst := Some \<lparr>training = False, weights = ()\<rparr>\<rparr>)"
  using evaluation_step_fitted_likelihood
    [of demo_check_is_fitted "demo_net\<lparr>module_inst := None\<rparr>"
        "NotInitializedError ''This net is not initialized yet.''"
        demo_unpack_data demo_infer "(demo_dist, ())" False]
    evaluation_step_fitted_likelihood
    [of demo_check_is_fitted demo_net _ demo_unpack_data demo_infer "(demo_dist, ())" False
        demo_dist "()" "\<lparr>training = True, weights = ()\<rparr>" "Single (Dist demo_dist)"
        "demo_net\<lparr>grad_enabled := False, fast_pred_var := True,
                  module_inst := Some \<lparr>training = False, weights = ()\<rparr>\<rparr>"
        demo_likelihood "Dist demo_dist"
        "Dist (Distribution (NDArray [2] [1 / 4, 3 / 4]) (NDArray [2] [2, 3]))"]
    evaluation_step_fitted_likelihood
    [of demo_check_is_fitted demo_net _ demo_unpack_data demo_infer_tuple "(demo_dist, ())"
        False demo_dist "()" "\<lparr>training = True, weights = ()\<rparr>"
        "Tuple [Dist demo_dist, Obj 5]"
        "demo_net\<lparr>grad_enabled := False, fast_pred_var := True,
                  module_inst := Some \<lparr>training = False, weights = ()\<rparr>\<rparr>"
        demo_likelihood "Dist demo_dist"
        "Dist (Distribution (NDArray [2] [1 / 4, 3 / 4]) (NDArray [2] [2, 3]))" "[Obj 5]"]
  by (simp add: demo_check_is_fitted_def demo_unpack_data_def demo_net_def demo_infer_def
        demo_infer_tuple_def demo_likelihood_def demo_dist_def train_def)

subsection \<open>Class probabilities of the estimators that are no classifiers\<close>

text \<open>
  C9. For \<^verbatim>\<open>GPBase\<close>, \<^verbatim>\<open>ExactGPRegressor\<close> and \<^verbatim>\<open>GPRegressor\<close>, \<^verbatim>\<open>predict_proba\<close>
  raises an \<^verbatim>\<open>AttributeError\<close> whose message ends with the name of the class, for every
  input and every state of the estimator, fitted or not, and leaves the state as it was.
  Only \<^verbatim>\<open>GPBinaryClassifier\<close> has an implementation of its own.
\<close>

theorem predict_proba_only_binary_classifier:
  "(cls s \<noteq> GPBinaryClassifier \<longrightarrow>
      predict_proba get_predict_nonlinearity to_numpy forward_iter X s =
        (Inl (AttributeError ([CHR 0x27] @ ''predict_proba'' @ [CHR 0x27] @
                '' is not implemented for '' @ class_name (cls s))), s))
   \<and> (cls s = GPBinaryClassifier \<longrightarrow>
      predict_proba get_predict_nonlinearity to_numpy forward_iter X s =
        GPBinaryClassifier_predict_proba get_predict_nonlinearity to_numpy forward_iter X s)"
  by (cases "cls s") (simp_all add: predict_proba_def GPBase_predict_proba_def)

theorem predict_proba_only_binary_classifier_witness:
  "predict_proba demo_get_predict_nonlinearity demo_to_numpy demo_forward_iter demo_batches
     demo_net =
     (Inl (AttributeError ([CHR 0x27] @ ''predict_proba'' @ [CHR 0x27] @
             '' is not implemented for GPRegressor'')), demo_net)
   \<and> predict_proba demo_get_predict_nonlinearity demo_to_numpy demo_forward_iter demo_batches
       demo_classifier =
     GPBinaryClassifier_predict_proba demo_get_predict_nonlinearity demo_to_numpy
       demo_forward_iter demo_batches demo_classifier"
  using predict_proba_only_binary_classifier
    [of demo_net demo_get_predict_nonlinearity demo_to_numpy demo_forward_iter demo_batches]
    predict_proba_only_binary_classifier
    [of demo_classifier demo_get_predict_nonlinearity demo_to_numpy
        demo_forward_iter demo_batches]
  by (simp add: demo_classifier_def demo_net_def)

subsection \<open>Prediction of the regressors\<close>

text \<open>
  C10. With \<^verbatim>\<open>return_cov=True\<close> the \<^verbatim>\<open>predict\<close> of the regressors raises
  \<^verbatim>\<open>NotImplementedError\<close>, whatever \<^verbatim>\<open>return_std\<close> is. The result does not depend on
  the nonlinearity or on \<^verbatim>\<open>forward_iter\<close>, which are not run, and the state of the
  estimator is the one before the call.
\<close>

theorem predict_return_cov_not_implemented:
  "GPRegressorPredictMixin_predict get_predict_nonlinearity to_numpy forward_iter
     X return_std True s = (Inl (NotImplementedError return_cov_msg), s)"
  by (simp add: GPRegressorPredictMixin_predict_def)

theorem predict_return_cov_not_implemented_witness:
  "GPRegressorPredictMixin_predict demo_get_predict_nonlinearity demo_to_numpy
     demo_forward_iter demo_batches True True demo_net =
       (Inl (NotImplementedError return_cov_msg), demo_net)
   \<and> GPRegressorPredictMixin_predict demo_get_predict_nonlinearity demo_to_numpy
     demo_forward_iter demo_batches False True demo_net =
       (Inl (NotImplementedError return_cov_msg), demo_net)"
  using predict_return_cov_not_implemented
    [of demo_get_predict_nonlinearity demo_to_numpy demo_forward_iter demo_batches True demo_net]
    predict_return_cov_not_implemented
    [of demo_get_predict_nonlinearity demo_to_numpy demo_forward_iter demo_batches False
        demo_net]
  by simp

text \<open>
  The loop of \<^verbatim>\<open>predict\<close> takes a batch from the generator and reads its posterior before
  it asks for the next batch. When the generator runs to its end and the posterior of
  every batch is a distribution, the loop collects the arrays of all batches in order.
\<close>

lemma predict_loop_collect:
  assumes "list_of gens s = (Inr ys, s')"
    and "map posterior_of ys = map (\<lambda>d. Inr (Dist d)) ds"
  shows "predict_loop nonlin to_numpy return_std gens y_preds y_stds s =
           (Inr (y_preds @ map (\<lambda>d. to_numpy (nonlin (mean d))) ds,
                 y_stds @ (if return_std then map (\<lambda>d. to_numpy (nonlin (stddev d))) ds else [])),
            s')"
  using assms
proof (induction gens arbitrary: s ys ds y_preds y_stds)
  case Nil
  then show ?case by simp
next
  case (Cons g gs)
  from Cons.prems(1) obtain y s1 ys' where g: "g s = (Inr y, s1)"
    and rest: "list_of gs s1 = (Inr ys', s')" and ys: "ys = y # ys'"
    by (auto split: prod.splits sum.splits)
  from Cons.prems(2) ys obtain d ds' where ds: "ds = d # ds'"
    and py: "posterior_of y = Inr (Dist d)"
    and more: "map posterior_of ys' = map (\<lambda>d. Inr (Dist d)) ds'"
    by (cases ds) auto
  show ?case
    using g py ds Cons.IH [OF rest more] by (cases return_std) simp_all
qed

lemma np_concatenate_elems:
  "np_concatenate arrs = Inr a \<Longrightarrow>
     arrs \<noteq> [] \<and> elems a = concat (map elems arrs)
     \<and> shape a = sum_list (map (\<lambda>b. hd (shape b)) arrs) # tl (shape (hd arrs))"
  by (auto simp: np_concatenate_def split: list.splits if_splits)

text \<open>
  C4, amended. Let \<^verbatim>\<open>forward_iter\<close> run to its end on \<open>X\<close>, let the posterior of
  batch \<open>i\<close> be the distribution \<open>ds ! i\<close>, and let \<^verbatim>\<open>np.concatenate\<close> accept the arrays of
  the batch means (there is at least one batch, and the arrays agree in rank and trailing
  dimensions). Then \<^verbatim>\<open>predict(X)\<close> of a regressor returns that concatenation, whose
  elements are those of the batches in order, each batch mean passed through the predict
  nonlinearity. With \<^verbatim>\<open>return_std=True\<close>, and the arrays of the standard deviations
  accepted as well, it returns the pair of that array and the concatenation of the batch
  standard deviations, passed through the nonlinearity in the same way.
\<close>

theorem regressor_predict_concatenates:
  assumes "get_predict_nonlinearity s = Inr nonlin"
    and "list_of (forward_iter X False None s) s = (Inr ys, s')"
    and "map posterior_of ys = map (\<lambda>d. Inr (Dist d)) ds"
    and "np_concatenate (map (\<lambda>d. to_numpy (nonlin (mean d))) ds) = Inr y_pred"
  shows "GPRegressorPredictMixin_predict get_predict_nonlinearity to_numpy forward_iter
           X False False s = (Inr (Pred y_pred), s')
       \<and> elems y_pred = concat (map (\<lambda>d. elems (to_numpy (nonlin (mean d)))) ds)
       \<and> (\<forall>y_std. np_concatenate (map (\<lambda>d. to_numpy (nonlin (stddev d))) ds) = Inr y_std \<longrightarrow>
            GPRegressorPredictMixin_predict get_predict_nonlinearity to_numpy forward_iter
              X True False s = (Inr (PredStd y_pred y_std), s')
            \<and> elems y_std = concat (map (\<lambda>d. elems (to_numpy (nonlin (stddev d)))) ds))"
proof -
  have loop: "predict_loop nonlin to_numpy return_std (forward_iter X False None s) [] [] s =
      (Inr (map (\<lambda>d. to_numpy (nonlin (mean d))) ds,
            if return_std then map (\<lambda>d. to_numpy (nonlin (stddev d))) ds else []), s')"
    for return_std
    using predict_loop_collect [OF assms(2,3), of nonlin to_numpy return_std "[]" "[]"] by simp
  have "GPRegressorPredictMixin_predict get_predict_nonlinearity to_numpy forward_iter
           X False False s = (Inr (Pred y_pred), s')"
    using assms(1,4) loop [of False] by (simp add: GPRegressorPredictMixin_predict_def)
  moreover have "elems y_pred = concat (map (\<lambda>d. elems (to_numpy (nonlin (mean d)))) ds)"
    using np_concatenate_elems [OF assms(4)] by (simp add: comp_def)
  moreover have "GPRegressorPredictMixin_predict get_predict_nonlinearity to_numpy forward_iter
              X True False s = (Inr (PredStd y_pred y_std), s')
            \<and> elems y_std = concat (map (\<lambda>d. elems (to_numpy (nonlin (stddev d)))) ds)"
    if "np_concatenate (map (\<lambda>d. to_numpy (nonlin (stddev d))) ds) = Inr y_std" for y_std
    using assms(1,4) that loop [of True] np_concatenate_elems [OF that]
    by (simp add: GPRegressorPredictMixin_predict_def comp_def)
  ultimately show ?thesis by blast
qed

text \<open>Two batches, of two samples and of one.\<close>

theorem regressor_predict_concatenates_witness:
  "GPRegressorPredictMixin_predict demo_get_predict_nonlinearity demo_to_numpy
     demo_forward_iter demo_batches False False demo_net =
       (Inr (Pred (NDArray [3] [1 / 4, 3 / 4, 1 / 2])), demo_net)
   \<and> GPRegressorPredictMixin_predict demo_get_predict_nonlinearity demo_to_numpy
     demo_forward_iter demo_batches True False demo_net =
       (Inr (PredStd (NDArray [3] [1 / 4, 3 / 4, 1 / 2]) (NDArray [3] [1, 2, 3])), demo_net)"
  using regressor_predict_concatenates
    [of demo_get_predict_nonlinearity demo_net "\<lambda>t. t" demo_forward_iter demo_batches
        "map (\<lambda>d. Single (Dist d)) demo_batches" demo_net demo_batches demo_to_numpy
        "NDArray [3] [1 / 4, 3 / 4, 1 / 2]"]
  by (simp add: demo_get_predict_nonlinearity_def demo_to_numpy_def demo_forward_iter_def
        demo_batches_def np_concatenate_def)

text \<open>
  C4 as stated fails for an input without samples: the data loader yields no batch, the
  list of arrays is empty, and \<^verbatim>\<open>np.concatenate\<close> raises \<^verbatim>\<open>ValueError\<close>.
\<close>

theorem regressor_predict_no_batch_counterexample:
  "GPRegressorPredictMixin_predict demo_get_predict_nonlinearity demo_to_numpy
     demo_forward_iter [] False False demo_net =
       (Inl (ValueError ''need at least one array to concatenate''), demo_net)"
  by (simp add: GPRegressorPredictMixin_predict_def demo_get_predict_nonlinearity_def
        demo_forward_iter_def np_concatenate_def)

subsection \<open>Prediction of the binary classifier\<close>










section \<open>Properties of the docstring templating\<close>

subsection \<open>Searching\<close>

lemma search_from_skip:
  "no_start r p rest \<Longrightarrow> search_from r i (p @ rest) = search_from r (i + length p) rest"
  by (induction p arbitrary: i) simp_all

lemma search_from_bounds:
  "search_from r i s = Some (a, b) \<Longrightarrow> i \<le> a \<and> a \<le> b"
proof (induction s arbitrary: i)
  case Nil
  then show ?case by (auto split: option.splits)
next
  case (Cons x xs)
  show ?case
  proof (cases "rmatch r (x # xs) Some")
    case None
    with Cons.prems have "search_from r (Suc i) xs = Some (a, b)" by simp
    from Cons.IH [OF this] show ?thesis by simp
  next
    case (Some rest)
    with Cons.prems show ?thesis by auto
  qed
qed

lemma no_start_append:
  "no_start r (p1 @ p2) q = (no_start r p1 (p2 @ q) \<and> no_start r p2 q)"
  by (induction p1) auto

lemma search_hit:
  assumes "no_start r p (m @ q)" and "rmatch r (m @ q) Some = Some q" and "m \<noteq> []"
  shows "search r (p @ m @ q) = Some (length p, length p + length m)"
proof -
  from assms(3) obtain x xs where m: "m = x # xs" by (cases m) auto
  have "search r (p @ m @ q) = search_from r (length p) (m @ q)"
    using search_from_skip [OF assms(1), of 0] by (simp add: search_def)
  also have "\<dots> = Some (length p, length p + length m)"
    using assms(2) unfolding m by simp
  finally show ?thesis .
qed

lemma search_miss:
  assumes "no_start r p []" and "rmatch r [] Some = None"
  shows "search r p = None"
  using search_from_skip [OF assms(1), of 0] assms(2) by (simp add: search_def)

lemma replace_span:
  "take (length p) (p @ m @ q) @ new @ drop (length p + length m) (p @ m @ q) = p @ new @ q"
  by simp

lemma replace_match_hit:
  assumes "no_start r p (m @ q)" and "rmatch r (m @ q) Some = Some q" and "m \<noteq> []"
  shows "replace_match r new (p @ m @ q) = Inr (p @ new @ q)"
  using search_hit [OF assms] by (simp add: replace_match_def)

lemma replace_match_miss:
  assumes "no_start r p []" and "rmatch r [] Some = None"
  shows "replace_match r new p =
           Inl (AttributeError ([CHR 0x27] @ ''NoneType'' @ [CHR 0x27] @
                  '' object has no attribute '' @ [CHR 0x27] @ ''span'' @ [CHR 0x27]))"
  using search_miss [OF assms] by (simp add: replace_match_def)

subsection \<open>No pattern matches inside the text put in front\<close>

text \<open>
  Every match starts at a newline, goes on over the whitespace after it and then needs the
  name of a parameter. In the opening text no line starts with such a name, and the
  whitespace at its end is followed by the \<open>P\<close> of the header.
\<close>

lemma no_start_module: "no_start (param_pattern ''module'') doc_prefix rest"
  by (simp add: doc_prefix_def exact_gp_regr_doc_start_def param_pattern_def is_space_def)

lemma no_start_criterion: "no_start (param_pattern ''criterion'') doc_prefix rest"
  by (simp add: doc_prefix_def exact_gp_regr_doc_start_def param_pattern_def is_space_def)

lemma no_start_batch_size: "no_start (param_pattern ''batch_size'') doc_prefix rest"
  by (simp add: doc_prefix_def exact_gp_regr_doc_start_def param_pattern_def is_space_def)

lemma no_start_train_split: "no_start (param_pattern ''train_split'') doc_prefix rest"
  by (simp add: doc_prefix_def exact_gp_regr_doc_start_def param_pattern_def is_space_def)

lemma no_start_prefix:
  "name \<in> set pattern_names \<Longrightarrow> no_start (param_pattern name) doc_prefix rest"
  using no_start_module no_start_criterion no_start_batch_size no_start_train_split
  by (auto simp: pattern_names_def)

lemma search_after_prefix:
  assumes "name \<in> set pattern_names"
    and "search (param_pattern name) (doc_prefix @ rest) = Some (a, b)"
  shows "length doc_prefix \<le> a \<and> a \<le> b"
proof -
  have "search_from (param_pattern name) (length doc_prefix) rest = Some (a, b)"
    using assms(2) search_from_skip [OF no_start_prefix [OF assms(1)], of 0 rest]
    by (simp add: search_def)
  from search_from_bounds [OF this] show ?thesis .
qed

lemma replace_keeps_prefix:
  assumes "name \<in> set pattern_names"
    and "search (param_pattern name) (doc_prefix @ rest) = Some (a, b)"
  shows "\<exists>rest'. take a (doc_prefix @ rest) @ new @ drop b (doc_prefix @ rest) =
           doc_prefix @ rest'"
proof -
  from search_after_prefix [OF assms] have "length doc_prefix \<le> a" by simp
  then have "take a (doc_prefix @ rest) = doc_prefix @ take (a - length doc_prefix) rest"
    by simp
  then show ?thesis by simp
qed

subsection \<open>Finding the header\<close>

lemma find_sub_from_found:
  "find_sub_from sub i s = int j \<Longrightarrow> i \<le> j \<and> take (length sub) (drop (j - i) s) = sub"
proof (induction s arbitrary: i)
  case Nil
  then show ?case by (auto split: if_splits)
next
  case (Cons x xs)
  show ?case
  proof (cases "take (length sub) (x # xs) = sub")
    case True
    with Cons.prems show ?thesis by simp
  next
    case False
    with Cons.prems have "find_sub_from sub (Suc i) xs = int j" by simp
    from Cons.IH [OF this] have "Suc i \<le> j" "take (length sub) (drop (j - Suc i) xs) = sub"
      by simp_all
    moreover from \<open>Suc i \<le> j\<close> have "j - i = Suc (j - Suc i)" by simp
    ultimately show ?thesis by simp
  qed
qed

lemma find_sub_from_here: "take (length sub) s = sub \<Longrightarrow> find_sub_from sub i s = int i"
  by (cases s) auto

lemma find_header:
  assumes "find_sub doc params_header = int idx"
  shows "drop idx doc = params_header @ drop (length params_header) (drop idx doc)"
    and "find_sub (drop idx doc) params_header = 0"
proof -
  from find_sub_from_found [of params_header 0 doc idx] assms
  have t: "take (length params_header) (drop idx doc) = params_header"
    by (simp add: find_sub_def)
  show "drop idx doc = params_header @ drop (length params_header) (drop idx doc)"
    using append_take_drop_id [of "length params_header" "drop idx doc"] t by simp
  show "find_sub (drop idx doc) params_header = 0"
    using find_sub_from_here [OF t, of 0] by (simp add: find_sub_def)
qed

lemma header_after_prefix:
  "exact_gp_regr_doc_start @ '' '' @ params_header @ tail = doc_prefix @ header_rest @ tail"
  by (simp add: doc_prefix_def params_header_def header_rest_def)

lemma prefix_header:
  "exact_gp_regr_doc_start @ '' '' @ params_header = doc_prefix @ header_rest"
  by (simp add: doc_prefix_def header_rest_def params_header_def)

subsection \<open>The templated docstring\<close>

text \<open>
  C7, amended. Let the docstring contain the header, at index \<open>idx\<close>, and let each of the
  four searches find a match in the text as rewritten so far: the \<^verbatim>\<open>module\<close> pattern in
  the opening text, a space and the docstring from the header on, then the
  \<^verbatim>\<open>criterion\<close>, \<^verbatim>\<open>batch_size\<close> and \<^verbatim>\<open>train_split\<close> patterns each in the result of the
  replacement before. Then \<^verbatim>\<open>get_exact_gp_regr_doc\<close> returns the text in which each of
  the four matches has been replaced by its replacement text, followed by
  \<^verbatim>\<open>gp_likelihood_attribute_text\<close>. The result begins with \<^verbatim>\<open>exact_gp_regr_doc_start\<close> and
  a space, since no match starts inside them, and it is the result for the docstring
  from the header on: what precedes the header is dropped.
\<close>

theorem get_exact_gp_regr_doc_templating:
  assumes "find_sub doc params_header = int idx"
    and "d0 = exact_gp_regr_doc_start @ '' '' @ drop idx doc"
    and "search (param_pattern ''module'') d0 = Some (s1, e1)"
    and "d1 = take s1 d0 @ exact_gp_regr_module_text @ drop e1 d0"
    and "search (param_pattern ''criterion'') d1 = Some (s2, e2)"
    and "d2 = take s2 d1 @ exact_gp_regr_criterion_text @ drop e2 d1"
    and "search (param_pattern ''batch_size'') d2 = Some (s3, e3)"
    and "d3 = take s3 d2 @ exact_gp_regr_batch_size_text @ drop e3 d2"
    and "search (param_pattern ''train_split'') d3 = Some (s4, e4)"
    and "d4 = take s4 d3 @ gp_regr_train_split_text @ drop e4 d3"
  shows "get_exact_gp_regr_doc doc = Inr (d4 @ gp_likelihood_attribute_text)
       \<and> (\<exists>body. d4 @ gp_likelihood_attribute_text =
              exact_gp_regr_doc_start @ '' '' @ body @ gp_likelihood_attribute_text)
       \<and> length (exact_gp_regr_doc_start @ '' '') \<le> s1
       \<and> length (exact_gp_regr_doc_start @ '' '') \<le> s2
       \<and> length (exact_gp_regr_doc_start @ '' '') \<le> s3
       \<and> length (exact_gp_regr_doc_start @ '' '') \<le> s4
       \<and> get_exact_gp_regr_doc (drop idx doc) = get_exact_gp_regr_doc doc"
proof -
  have names: "''module'' \<in> set pattern_names" "''criterion'' \<in> set pattern_names"
    "''batch_size'' \<in> set pattern_names" "''train_split'' \<in> set pattern_names"
    by (simp_all add: pattern_names_def)
  have len: "length (exact_gp_regr_doc_start @ '' '') \<le> length doc_prefix"
    by (simp add: doc_prefix_def)
  define tail where "tail = drop (length params_header) (drop idx doc)"
  have "drop idx doc = params_header @ tail"
    unfolding tail_def by (rule find_header(1) [OF assms(1)])
  then have "d0 = exact_gp_regr_doc_start @ '' '' @ params_header @ tail"
    by (simp only: assms(2))
  then have r0: "d0 = doc_prefix @ header_rest @ tail"
    by (simp only: header_after_prefix)
  have step: "\<exists>r'. take a d @ new @ drop b d = doc_prefix @ r'"
    if "name \<in> set pattern_names" "d = doc_prefix @ r"
      "search (param_pattern name) d = Some (a, b)" for name d r a b new
    using replace_keeps_prefix [OF that(1), of r a b new] that(2,3) by simp
  have start: "length doc_prefix \<le> a"
    if "name \<in> set pattern_names" "d = doc_prefix @ r"
      "search (param_pattern name) d = Some (a, b)" for name d r a b
    using search_after_prefix [OF that(1), of r a b] that(2,3) by simp
  from step [OF names(1) r0 assms(3)] obtain r1 where r1: "d1 = doc_prefix @ r1"
    unfolding assms(4) by blast
  from step [OF names(2) r1 assms(5)] obtain r2 where r2: "d2 = doc_prefix @ r2"
    unfolding assms(6) by blast
  from step [OF names(3) r2 assms(7)] obtain r3 where r3: "d3 = doc_prefix @ r3"
    unfolding assms(8) by blast
  from step [OF names(4) r3 assms(9)] obtain r4 where r4: "d4 = doc_prefix @ r4"
    unfolding assms(10) by blast
  have sl: "slice_from doc (find_sub doc params_header) = drop idx doc"
    by (simp add: assms(1) slice_from_def)
  have run: "get_exact_gp_regr_doc doc = Inr (d4 @ gp_likelihood_attribute_text)"
    by (simp only: get_exact_gp_regr_doc_def Let_def sl assms(2) [symmetric] replace_match_def
          assms(3) assms(4) [symmetric] assms(5) assms(6) [symmetric] assms(7)
          assms(8) [symmetric] assms(9) assms(10) [symmetric]
          option.case prod.case sum.case)
  have sl0: "slice_from (drop idx doc) (find_sub (drop idx doc) params_header) = drop idx doc"
    by (simp add: find_header(2) [OF assms(1)] slice_from_def)
  have same: "get_exact_gp_regr_doc (drop idx doc) = get_exact_gp_regr_doc doc"
    by (simp only: get_exact_gp_regr_doc_def Let_def sl sl0)
  have body: "\<exists>body. d4 @ gp_likelihood_attribute_text =
      exact_gp_regr_doc_start @ '' '' @ body @ gp_likelihood_attribute_text"
    unfolding r4 doc_prefix_def by (intro exI [of _ "''    P'' @ r4"]) simp
  note start [OF names(1) r0 assms(3)] start [OF names(2) r1 assms(5)]
    start [OF names(3) r2 assms(7)] start [OF names(4) r3 assms(9)]
  with len run same body show ?thesis by simp
qed

subsection \<open>The templating of a docstring with blank lines between its parameters\<close>

text \<open>
  The replacement texts end with a blank line. The match of the next pattern starts at
  that blank line when the next parameter follows directly, so the blank line of the
  replacement text is replaced together with the paragraph.
\<close>

lemma strip2_module:
  "exact_gp_regr_module_text = strip2 exact_gp_regr_module_text @ ''\<newline>\<newline>''"
  by code_simp

lemma strip2_criterion:
  "exact_gp_regr_criterion_text = strip2 exact_gp_regr_criterion_text @ ''\<newline>\<newline>''"
  by code_simp

lemma strip2_batch_size:
  "exact_gp_regr_batch_size_text = strip2 exact_gp_regr_batch_size_text @ ''\<newline>\<newline>''"
  by code_simp

lemma no_start_header_rest:
  "name \<in> set pattern_names \<Longrightarrow> no_start (param_pattern name) header_rest rest"
  by (auto simp: pattern_names_def header_rest_def param_pattern_def is_space_def)

lemma no_start_module_text:
  "name \<in> {''criterion'', ''batch_size'', ''train_split''} \<Longrightarrow>
     no_start (param_pattern name) (strip2 exact_gp_regr_module_text) rest"
  by (auto simp: strip2_def exact_gp_regr_module_text_def param_pattern_def is_space_def)

lemma no_start_criterion_text:
  "name \<in> {''batch_size'', ''train_split''} \<Longrightarrow>
     no_start (param_pattern name) (strip2 exact_gp_regr_criterion_text) rest"
  by (auto simp: strip2_def exact_gp_regr_criterion_text_def param_pattern_def is_space_def)

lemma no_start_batch_size_text:
  "no_start (param_pattern ''train_split'') (strip2 exact_gp_regr_batch_size_text) rest"
  by (auto simp: strip2_def exact_gp_regr_batch_size_text_def param_pattern_def is_space_def)

text \<open>Each pattern matches its paragraph up to the end of the last line before a blank line.\<close>

lemma hit_module:
  "rmatch (param_pattern ''module'')
     (sample_module_par @ CHR 0x0A # CHR 0x0A # rest) Some = Some (CHR 0x0A # CHR 0x0A # rest)"
  by (simp add: sample_module_par_def param_pattern_def is_space_def eval_nat_numeral)

lemma hit_criterion:
  "rmatch (param_pattern ''criterion'')
     ((''\<newline>\<newline>\<newline>'' @ sample_criterion_par) @ CHR 0x0A # CHR 0x0A # rest) Some =
   Some (CHR 0x0A # CHR 0x0A # rest)"
  by (simp add: sample_criterion_par_def param_pattern_def is_space_def eval_nat_numeral)

lemma hit_batch_size:
  "rmatch (param_pattern ''batch_size'')
     ((''\<newline>\<newline>\<newline>'' @ sample_batch_size_par) @ CHR 0x0A # CHR 0x0A # rest) Some =
   Some (CHR 0x0A # CHR 0x0A # rest)"
  by (simp add: sample_batch_size_par_def param_pattern_def is_space_def eval_nat_numeral)

lemma hit_train_split:
  "rmatch (param_pattern ''train_split'')
     ((''\<newline>\<newline>\<newline>'' @ sample_train_split_par) @ CHR 0x0A # CHR 0x0A # rest) Some =
   Some (CHR 0x0A # CHR 0x0A # rest)"
  by (simp add: sample_train_split_par_def param_pattern_def is_space_def eval_nat_numeral)

lemma sample_tail_blank:
  "\<exists>rest. sample_tail_1 = CHR 0x0A # CHR 0x0A # rest"
  "\<exists>rest. sample_tail_2 = CHR 0x0A # CHR 0x0A # rest"
  "\<exists>rest. sample_tail_3 = CHR 0x0A # CHR 0x0A # rest"
  "\<exists>rest. sample_tail_4 = CHR 0x0A # CHR 0x0A # rest"
  by (simp_all add: sample_tail_1_def sample_tail_2_def sample_tail_3_def sample_tail_4_def
        sample_criterion_par_def sample_batch_size_par_def sample_train_split_par_def
        sample_attributes_def)

lemma prefix_header_append:
  "doc_prefix @ header_rest @ x = exact_gp_regr_doc_start @ '' '' @ params_header @ x"
  by (simp add: doc_prefix_def header_rest_def params_header_def)

text \<open>
  For the sample docstring the four searches succeed, and the result is the opening text,
  the header, the four replacement texts with one blank line between them, what follows
  the parameters in the docstring, and the attribute text.
\<close>

theorem get_exact_gp_regr_doc_templating_witness:
  "get_exact_gp_regr_doc sample_doc =
     Inr (exact_gp_regr_doc_start @ '' '' @ params_header @
          strip2 exact_gp_regr_module_text @
          strip2 exact_gp_regr_criterion_text @
          strip2 exact_gp_regr_batch_size_text @
          gp_regr_train_split_text @
          sample_tail_4 @
          gp_likelihood_attribute_text)"
proof -
  let ?P = "doc_prefix @ header_rest"
  let ?p2 = "?P @ strip2 exact_gp_regr_module_text"
  let ?p3 = "?p2 @ strip2 exact_gp_regr_criterion_text"
  let ?p4 = "?p3 @ strip2 exact_gp_regr_batch_size_text"
  let ?m1 = "sample_module_par"
  let ?m2 = "''\<newline>\<newline>\<newline>'' @ sample_criterion_par"
  let ?m3 = "''\<newline>\<newline>\<newline>'' @ sample_batch_size_par"
  let ?m4 = "''\<newline>\<newline>\<newline>'' @ sample_train_split_par"
  have names: "''module'' \<in> set pattern_names" "''criterion'' \<in> set pattern_names"
    "''batch_size'' \<in> set pattern_names" "''train_split'' \<in> set pattern_names"
    by (simp_all add: pattern_names_def)
  have ns1: "no_start (param_pattern ''module'') ?P rest" for rest
    by (simp add: no_start_append no_start_prefix no_start_header_rest names)
  have ns2: "no_start (param_pattern ''criterion'') ?p2 rest" for rest
    by (simp add: no_start_append no_start_prefix no_start_header_rest names
          no_start_module_text)
  have ns3: "no_start (param_pattern ''batch_size'') ?p3 rest" for rest
    by (simp add: no_start_append no_start_prefix no_start_header_rest names
          no_start_module_text no_start_criterion_text)
  have ns4: "no_start (param_pattern ''train_split'') ?p4 rest" for rest
    by (simp add: no_start_append no_start_prefix no_start_header_rest names
          no_start_module_text no_start_criterion_text no_start_batch_size_text)
  have hit1: "rmatch (param_pattern ''module'') (?m1 @ sample_tail_1) Some = Some sample_tail_1"
  proof -
    from sample_tail_blank(1) obtain rest where r: "sample_tail_1 = CHR 0x0A # CHR 0x0A # rest" ..
    show ?thesis unfolding r by (rule hit_module)
  qed
  have hit2: "rmatch (param_pattern ''criterion'') (?m2 @ sample_tail_2) Some = Some sample_tail_2"
  proof -
    from sample_tail_blank(2) obtain rest where r: "sample_tail_2 = CHR 0x0A # CHR 0x0A # rest" ..
    show ?thesis unfolding r by (rule hit_criterion)
  qed
  have hit3: "rmatch (param_pattern ''batch_size'') (?m3 @ sample_tail_3) Some = Some sample_tail_3"
  proof -
    from sample_tail_blank(3) obtain rest where r: "sample_tail_3 = CHR 0x0A # CHR 0x0A # rest" ..
    show ?thesis unfolding r by (rule hit_batch_size)
  qed
  have hit4: "rmatch (param_pattern ''train_split'') (?m4 @ sample_tail_4) Some = Some sample_tail_4"
  proof -
    from sample_tail_blank(4) obtain rest where r: "sample_tail_4 = CHR 0x0A # CHR 0x0A # rest" ..
    show ?thesis unfolding r by (rule hit_train_split)
  qed
  have ne: "?m1 \<noteq> []" "?m2 \<noteq> []" "?m3 \<noteq> []" "?m4 \<noteq> []"
    by (simp_all add: sample_module_par_def)
  have h0: "find_sub sample_doc params_header = int 23"
    by code_simp
  have e0: "?P @ ?m1 @ sample_tail_1 = exact_gp_regr_doc_start @ '' '' @ drop 23 sample_doc"
    by (simp add: prefix_header [symmetric] sample_doc_def sample_title_def)
  note h1 = search_hit [OF ns1 hit1 ne(1)]
  have e1: "?p2 @ ?m2 @ sample_tail_2 =
      take (length ?P) (?P @ ?m1 @ sample_tail_1) @ exact_gp_regr_module_text @
      drop (length ?P + length ?m1) (?P @ ?m1 @ sample_tail_1)"
    unfolding replace_span
    by (subst (2) strip2_module) (simp add: sample_tail_1_def)
  note h2 = search_hit [OF ns2 hit2 ne(2)]
  have e2: "?p3 @ ?m3 @ sample_tail_3 =
      take (length ?p2) (?p2 @ ?m2 @ sample_tail_2) @ exact_gp_regr_criterion_text @
      drop (length ?p2 + length ?m2) (?p2 @ ?m2 @ sample_tail_2)"
    unfolding replace_span
    by (subst (2) strip2_criterion) (simp add: sample_tail_2_def)
  note h3 = search_hit [OF ns3 hit3 ne(3)]
  have e3: "?p4 @ ?m4 @ sample_tail_4 =
      take (length ?p3) (?p3 @ ?m3 @ sample_tail_3) @ exact_gp_regr_batch_size_text @
      drop (length ?p3 + length ?m3) (?p3 @ ?m3 @ sample_tail_3)"
    unfolding replace_span
    by (subst (2) strip2_batch_size) (simp add: sample_tail_3_def)
  note h4 = search_hit [OF ns4 hit4 ne(4)]
  have e4: "?p4 @ gp_regr_train_split_text @ sample_tail_4 =
      take (length ?p4) (?p4 @ ?m4 @ sample_tail_4) @ gp_regr_train_split_text @
      drop (length ?p4 + length ?m4) (?p4 @ ?m4 @ sample_tail_4)"
    unfolding replace_span by simp
  from get_exact_gp_regr_doc_templating [OF h0 e0 h1 e1 h2 e2 h3 e3 h4 e4]
  have "get_exact_gp_regr_doc sample_doc =
      Inr ((?p4 @ gp_regr_train_split_text @ sample_tail_4) @ gp_likelihood_attribute_text)"
    by blast
  then show ?thesis
    by (simp add: prefix_header_append)
qed

subsection \<open>The templating of a docstring without blank lines between its parameters\<close>

lemma hit_compact:
  "rmatch (param_pattern ''module'') (compact_params @ ''\<newline>'') Some = Some ''\<newline>''"
  by (simp add: compact_params_def param_pattern_def is_space_def eval_nat_numeral)

lemma no_start_module_text_end:
  "no_start (param_pattern ''criterion'') (exact_gp_regr_module_text @ ''\<newline>'') []"
  by (simp add: exact_gp_regr_module_text_def param_pattern_def is_space_def)

text \<open>
  C7 as stated fails for a docstring that lists its parameters without blank lines
  between them. The docstring contains the header, and each of the four patterns matches
  in it. The match of the \<^verbatim>\<open>module\<close> pattern runs over the lines of all four parameters,
  so after its replacement no \<^verbatim>\<open>criterion\<close> paragraph is left: the second search returns
  \<^verbatim>\<open>None\<close>, and the call of \<^verbatim>\<open>span\<close> raises \<^verbatim>\<open>AttributeError\<close>.
\<close>

theorem get_exact_gp_regr_doc_compact_counterexample:
  "find_sub compact_doc params_header = 7
   \<and> search (param_pattern ''module'') compact_doc = Some (36, 140)
   \<and> search (param_pattern ''criterion'') compact_doc = Some (59, 140)
   \<and> search (param_pattern ''batch_size'') compact_doc = Some (85, 140)
   \<and> search (param_pattern ''train_split'') compact_doc = Some (112, 140)
   \<and> get_exact_gp_regr_doc compact_doc =
       Inl (AttributeError ([CHR 0x27] @ ''NoneType'' @ [CHR 0x27] @
              '' object has no attribute '' @ [CHR 0x27] @ ''span'' @ [CHR 0x27]))"
proof -
  let ?P = "doc_prefix @ header_rest"
  have names: "''module'' \<in> set pattern_names" "''criterion'' \<in> set pattern_names"
    by (simp_all add: pattern_names_def)
  have f: "find_sub compact_doc params_header = 7" by code_simp
  have s1: "search (param_pattern ''module'') compact_doc = Some (36, 140)" by code_simp
  have s2: "search (param_pattern ''criterion'') compact_doc = Some (59, 140)" by code_simp
  have s3: "search (param_pattern ''batch_size'') compact_doc = Some (85, 140)" by code_simp
  have s4: "search (param_pattern ''train_split'') compact_doc = Some (112, 140)" by code_simp
  have d0: "exact_gp_regr_doc_start @ '' '' @ slice_from compact_doc 7 =
      ?P @ compact_params @ ''\<newline>''"
    by (simp add: prefix_header [symmetric] slice_from_def compact_doc_def compact_title_def)
  have ns1: "no_start (param_pattern ''module'') ?P rest" for rest
    by (simp add: no_start_append no_start_prefix no_start_header_rest names)
  have ne: "compact_params \<noteq> []" by (simp add: compact_params_def)
  have r1: "replace_match (param_pattern ''module'') exact_gp_regr_module_text
      (?P @ compact_params @ ''\<newline>'') = Inr (?P @ exact_gp_regr_module_text @ ''\<newline>'')"
    by (rule replace_match_hit [OF ns1 hit_compact ne])
  have ns2: "no_start (param_pattern ''criterion'')
      (?P @ exact_gp_regr_module_text @ ''\<newline>'') []"
    using no_start_module_text_end
    by (simp add: no_start_append no_start_prefix no_start_header_rest names)
  have e: "rmatch (param_pattern ''criterion'') [] Some = None"
    by (simp add: param_pattern_def)
  note r2 = replace_match_miss [OF ns2 e, of exact_gp_regr_criterion_text]
  have "get_exact_gp_regr_doc compact_doc =
      Inl (AttributeError ([CHR 0x27] @ ''NoneType'' @ [CHR 0x27] @
             '' object has no attribute '' @ [CHR 0x27] @ ''span'' @ [CHR 0x27]))"
    by (simp only: get_exact_gp_regr_doc_def Let_def f d0 r1 r2 sum.case)
  with f s1 s2 s3 s4 show ?thesis by simp
qed

end
